theory Spec2Isabelle
  imports Complex_Main "HOL-Library.Word"
begin

unbundle bit_operations_syntax

section \<open>The MikroTik BLE tag payload decoder\<close>

text \<open>
  A shallow embedding of \<^verbatim>\<open>parse_mikrotik_data\<close> and its nested helpers from
  \<^verbatim>\<open>custom_components/mikrotik_ble_tag/sensor.py\<close>.

  Python integers are unbounded and are modelled as \<open>int\<close>; \<open>&\<close>, \<open>|\<close>, \<open><<\<close> and
  \<open>>>\<close> are \<open>AND\<close>, \<open>OR\<close>, \<open>push_bit\<close> and \<open>drop_bit\<close> on \<open>int\<close>, which share
  Python's two's-complement reading of negative numbers.  The bytes of the
  advertisement are \<open>8 word\<close>s.

  Python floats are modelled as the \<open>real\<close> numbers they denote.  Every float the
  decoder produces from a payload is a 16-bit integer divided by \<open>256.0\<close>, which
  binary64 represents exactly, and so are the squares of the accepted accelerations
  and their sums (integers below \<open>2 ^ 26\<close> over \<open>2 ^ 16\<close>).  Only \<^verbatim>\<open>math.sqrt\<close>
  rounds: it is modelled by \<open>math_sqrt\<close>, the square root rounded to the nearest
  binary64 number.
\<close>

type_synonym byte = "8 word"

subsection \<open>Values of the returned dictionary\<close>

datatype pyval = PyNone | PyFloat real | PyInt int | PyBool bool | PyStr string

type_synonym pydict = "(string \<times> pyval) list"

definition dict_get :: "pydict \<Rightarrow> string \<Rightarrow> pyval" where
  \<comment> \<open>\<^verbatim>\<open>attributes.get(key)\<close>: \<^verbatim>\<open>None\<close> for a missing key.\<close>
  "dict_get d k = (case map_of d k of None \<Rightarrow> PyNone | Some v \<Rightarrow> v)"

definition float_or_none :: "real option \<Rightarrow> pyval" where
  "float_or_none x = (case x of None \<Rightarrow> PyNone | Some r \<Rightarrow> PyFloat r)"

definition int_or_none :: "int option \<Rightarrow> pyval" where
  "int_or_none x = (case x of None \<Rightarrow> PyNone | Some i \<Rightarrow> PyInt i)"

subsection \<open>Flag bit masks\<close>

definition FLAG_REED_SWITCH :: int where "FLAG_REED_SWITCH = 0x01"
definition FLAG_ACCEL_TILT :: int where "FLAG_ACCEL_TILT = 0x02"
definition FLAG_ACCEL_FREE_FALL :: int where "FLAG_ACCEL_FREE_FALL = 0x04"
definition FLAG_IMPACT_X :: int where "FLAG_IMPACT_X = 0x08"
definition FLAG_IMPACT_Y :: int where "FLAG_IMPACT_Y = 0x10"
definition FLAG_IMPACT_Z :: int where "FLAG_IMPACT_Z = 0x20"

subsection \<open>Decimal rendering of integers in f-strings\<close>

definition digit_char :: "nat \<Rightarrow> char" where
  "digit_char n = ''0123456789'' ! n"

fun str_nat :: "nat \<Rightarrow> string" where
  "str_nat n = (if n < 10 then [digit_char n] else str_nat (n div 10) @ [digit_char (n mod 10)])"

declare str_nat.simps [simp del]

definition str_int :: "int \<Rightarrow> string" where
  "str_int i = (if i < 0 then ''-'' @ str_nat (nat (- i)) else str_nat (nat i))"

subsection \<open>\<^verbatim>\<open>struct.unpack('<BBHhhhhIBB', data)\<close>\<close>

record fields =
  payload_version :: int
  encryption_flag :: int
  salt :: int
  acc_x_raw :: int
  acc_y_raw :: int
  acc_z_raw :: int
  temperature_raw :: int
  uptime :: int
  flag :: int
  battery :: int

definition le_u16 :: "byte \<Rightarrow> byte \<Rightarrow> int" where
  \<comment> \<open>format \<^verbatim>\<open>H\<close>: unsigned, first byte least significant.\<close>
  "le_u16 b0 b1 = uint b0 + 256 * uint b1"

definition le_i16 :: "byte \<Rightarrow> byte \<Rightarrow> int" where
  \<comment> \<open>format \<^verbatim>\<open>h\<close>: two's complement, first byte least significant.\<close>
  "le_i16 b0 b1 = (let u = le_u16 b0 b1 in if 32768 \<le> u then u - 65536 else u)"

definition le_u32 :: "byte \<Rightarrow> byte \<Rightarrow> byte \<Rightarrow> byte \<Rightarrow> int" where
  \<comment> \<open>format \<^verbatim>\<open>I\<close>.\<close>
  "le_u32 b0 b1 b2 b3 = uint b0 + 256 * uint b1 + 65536 * uint b2 + 16777216 * uint b3"

definition struct_unpack :: "byte list \<Rightarrow> fields option" where
  \<comment> \<open>\<^verbatim>\<open>struct.error\<close> (here \<open>None\<close>) unless the buffer has exactly 18 bytes.\<close>
  "struct_unpack data =
     (if length data \<noteq> 18 then None
      else Some \<lparr>payload_version = uint (data ! 0),
                 encryption_flag = uint (data ! 1),
                 salt = le_u16 (data ! 2) (data ! 3),
                 acc_x_raw = le_i16 (data ! 4) (data ! 5),
                 acc_y_raw = le_i16 (data ! 6) (data ! 7),
                 acc_z_raw = le_i16 (data ! 8) (data ! 9),
                 temperature_raw = le_i16 (data ! 10) (data ! 11),
                 uptime = le_u32 (data ! 12) (data ! 13) (data ! 14) (data ! 15),
                 flag = uint (data ! 16),
                 battery = uint (data ! 17)\<rparr>)"

subsection \<open>The conversion helpers\<close>

definition swap_octets :: "int \<Rightarrow> int" where
  "swap_octets v = (push_bit 8 (v AND 0xFF)) OR ((drop_bit 8 v) AND 0xFF)"

definition convert_acceleration :: "int \<Rightarrow> real" where
  "convert_acceleration v =
     (let swapped_value = swap_octets v;
          acceleration = real_of_int swapped_value / 256
      in if acceleration < - 16 \<or> acceleration > 16 then 0 else acceleration)"

definition convert_temperature :: "int \<Rightarrow> real option" where
  "convert_temperature v =
     (let swapped_value = swap_octets v;
          swapped_value = (if swapped_value > 0x7FFF then swapped_value - 0x10000
                           else swapped_value);
          temperature_celsius = real_of_int swapped_value / 256
      in if temperature_celsius < - 50 \<or> temperature_celsius > 100 then None
         else Some temperature_celsius)"

definition convert_battery :: "int \<Rightarrow> int option" where
  "convert_battery v = (if v < 0 \<or> v > 100 then None else Some v)"

definition uptime_dhms :: "int \<Rightarrow> int \<times> int \<times> int \<times> int" where
  \<comment> \<open>the arithmetic of \<^verbatim>\<open>convert_uptime\<close>, before the f-string.\<close>
  "uptime_dhms uptime_seconds =
     (let days = uptime_seconds div (24 * 3600);
          uptime_seconds = uptime_seconds mod (24 * 3600);
          hours = uptime_seconds div 3600;
          uptime_seconds = uptime_seconds mod 3600;
          minutes = uptime_seconds div 60;
          seconds = uptime_seconds mod 60
      in (days, hours, minutes, seconds))"

definition convert_uptime :: "int \<Rightarrow> string" where
  "convert_uptime uptime_seconds =
     (case uptime_dhms uptime_seconds of
        (days, hours, minutes, seconds) \<Rightarrow>
          str_int days @ ''d '' @ str_int hours @ ''h '' @ str_int minutes @ ''m ''
            @ str_int seconds @ ''s'')"

subsection \<open>\<^verbatim>\<open>math.sqrt\<close>\<close>

text \<open>
  \<^verbatim>\<open>math.sqrt\<close> is the square root of IEEE 754 binary64: the real square root,
  rounded to the nearest number with a 53-bit significand, a tie going to the even
  significand.  The root of a positive binary64 number lies between \<open>2 ^ -537\<close> and
  \<open>2 ^ 512\<close>, inside the normal range, so the exponent range plays no part in the
  rounding.  \<^verbatim>\<open>math.sqrt\<close> raises \<^verbatim>\<open>ValueError\<close> on a negative argument; its only
  caller passes a sum of squares.
\<close>

definition round_half_even :: "real \<Rightarrow> int" where
  "round_half_even q =
     (let f = \<lfloor>q\<rfloor>; d = q - real_of_int f
      in if d < 1 / 2 then f else if d > 1 / 2 then f + 1 else if even f then f else f + 1)"

definition round_binary64 :: "real \<Rightarrow> real" where
  \<comment> \<open>for \<open>r > 0\<close>: \<open>e\<close> is the binary exponent of \<open>r\<close>, \<open>ulp\<close> the spacing of binary64 at \<open>r\<close>.\<close>
  "round_binary64 r =
     (let e = \<lfloor>log 2 r\<rfloor>; ulp = 2 powi (e - 52)
      in real_of_int (round_half_even (r / ulp)) * ulp)"

definition math_sqrt :: "real \<Rightarrow> real" where
  "math_sqrt x = (if x = 0 then 0 else round_binary64 (sqrt x))"

definition calculate_total_acceleration ::
    "real option \<Rightarrow> real option \<Rightarrow> real option \<Rightarrow> real option" where
  "calculate_total_acceleration acc_x acc_y acc_z =
     (case (acc_x, acc_y, acc_z) of
        (Some x, Some y, Some z) \<Rightarrow> Some (math_sqrt (x\<^sup>2 + y\<^sup>2 + z\<^sup>2))
      | _ \<Rightarrow> None)"

subsection \<open>\<^verbatim>\<open>parse_mikrotik_data\<close>\<close>

definition attributes :: "fields \<Rightarrow> pydict" where
  \<comment> \<open>the dictionary built from the unpacked fields.\<close>
  "attributes f =
     (let acc_x_converted = convert_acceleration (acc_x_raw f);
          acc_y_converted = convert_acceleration (acc_y_raw f);
          acc_z_converted = convert_acceleration (acc_z_raw f);
          temperature_converted = convert_temperature (temperature_raw f);
          battery_converted = convert_battery (battery f);
          uptime_converted = convert_uptime (uptime f);
          flag_reed_switch = (flag f AND FLAG_REED_SWITCH \<noteq> 0);
          flag_accel_tilt = (flag f AND FLAG_ACCEL_TILT \<noteq> 0);
          flag_accel_free_fall = (flag f AND FLAG_ACCEL_FREE_FALL \<noteq> 0);
          flag_impact_x = (flag f AND FLAG_IMPACT_X \<noteq> 0);
          flag_impact_y = (flag f AND FLAG_IMPACT_Y \<noteq> 0);
          flag_impact_z = (flag f AND FLAG_IMPACT_Z \<noteq> 0)
      in [(''acceleration_x'', PyFloat acc_x_converted),
          (''acceleration_y'', PyFloat acc_y_converted),
          (''acceleration_z'', PyFloat acc_z_converted),
          (''total_acceleration'',
             float_or_none (calculate_total_acceleration (Some acc_x_converted)
                (Some acc_y_converted) (Some acc_z_converted))),
          (''temperature'', float_or_none temperature_converted),
          (''uptime'', PyStr uptime_converted),
          (''flag_reed_switch'', PyBool flag_reed_switch),
          (''flag_accel_tilt'', PyBool flag_accel_tilt),
          (''flag_accel_free_fall'', PyBool flag_accel_free_fall),
          (''flag_impact_x'', PyBool flag_impact_x),
          (''flag_impact_y'', PyBool flag_impact_y),
          (''flag_impact_z'', PyBool flag_impact_z),
          (''battery'', int_or_none battery_converted)])"

definition parse_mikrotik_data :: "byte list \<Rightarrow> string list \<times> pydict" where
  \<comment> \<open>the messages logged at error level, and the returned dictionary.\<close>
  "parse_mikrotik_data data =
     (if length data \<noteq> 18
      then ([''Invalid data length: expected 18 bytes, got '' @ str_nat (length data)
               @ '' bytes''], [])
      else case struct_unpack data of
             None \<Rightarrow>
               ([''Failed to parse MikroTik BLE Tag data: unpack requires a buffer of 18 bytes''],
                [])
           | Some f \<Rightarrow> ([], attributes f))"

section \<open>Arithmetic of the octet swap\<close>

lemma and_255_mod: "(v::int) AND 255 = v mod 256"
proof -
  have "v AND mask 8 = take_bit 8 v" by (simp only: take_bit_eq_mask)
  then show ?thesis by (simp add: take_bit_eq_mod mask_eq_exp_minus_1)
qed

lemma swap_octets_arith: "swap_octets v = (v mod 256) * 256 + (v div 256) mod 256"
proof -
  have "swap_octets v = take_bit 8 (drop_bit 8 v) OR push_bit 8 (v mod 256)"
    by (simp add: swap_octets_def and_255_mod take_bit_eq_mod or.commute)
  also have "\<dots> = concat_bit 8 (drop_bit 8 v) (v mod 256)"
    by (simp only: concat_bit_def)
  also have "\<dots> = (v mod 256) * 256 + (v div 256) mod 256"
    by (simp add: concat_bit_eq take_bit_eq_mod drop_bit_eq_div push_bit_eq_mult)
  finally show ?thesis .
qed

lemma i16_octets:
  fixes a b :: int
  assumes "0 \<le> a" "a < 256" "0 \<le> b" "b < 256"
  shows "(if 32768 \<le> a + 256 * b then a + 256 * b - 65536 else a + 256 * b) mod 256 = a"
    and "((if 32768 \<le> a + 256 * b then a + 256 * b - 65536 else a + 256 * b) div 256) mod 256 = b"
proof -
  let ?v = "if 32768 \<le> a + 256 * b then a + 256 * b - 65536 else a + 256 * b"
  let ?h = "if 128 \<le> b then b - 256 else b"
  have v: "?v = a + 256 * ?h" using assms by auto
  show "?v mod 256 = a" unfolding v using assms by simp
  have "?v div 256 = ?h" unfolding v using assms by simp
  then show "(?v div 256) mod 256 = b" using assms
    by (auto simp add: mod_diff_eq [symmetric] simp del: mod_diff_eq)
qed

lemma swap_octets_le_i16: "swap_octets (le_i16 lo hi) = 256 * uint lo + uint hi"
proof -
  have b: "0 \<le> uint lo" "uint lo < 256" "0 \<le> uint hi" "uint hi < 256"
    using uint_lt2p [of lo] uint_lt2p [of hi] by simp_all
  show ?thesis
    using i16_octets [OF b]
    by (simp add: swap_octets_arith le_i16_def le_u16_def Let_def)
qed

lemma swap_octets_range: "0 \<le> swap_octets v \<and> swap_octets v < 65536"
proof -
  have "0 \<le> v mod 256" "v mod 256 < 256" "0 \<le> (v div 256) mod 256" "(v div 256) mod 256 < 256"
    by simp_all
  then show ?thesis unfolding swap_octets_arith by linarith
qed

lemma uint_word_cat_bytes: "uint (word_cat lo hi :: 16 word) = 256 * uint lo + uint (hi :: byte)"
  for lo :: byte
proof -
  have b: "0 \<le> uint lo" "uint lo < 256" "0 \<le> uint hi" "uint hi < 256"
    using uint_lt2p [of lo] uint_lt2p [of hi] by simp_all
  have "uint (word_cat lo hi :: 16 word) = take_bit 16 (concat_bit 8 (uint hi) (uint lo))"
    by (simp only: word_cat_eq' uint_word_of_int_eq len_bit0 len_num1 mult_1_right)
      (simp add: take_bit_eq_mod)
  also have "\<dots> = (uint hi + 256 * uint lo) mod 65536"
    using b by (simp add: concat_bit_eq take_bit_eq_mod push_bit_eq_mult)
  also have "\<dots> = uint hi + 256 * uint lo"
    using b by simp
  finally show ?thesis by simp
qed

lemma signed_of_mod:
  fixes s u :: int
  assumes "u = s mod 65536" "- 32768 \<le> s" "s < 32768"
  shows "s = (if u > 32767 then u - 65536 else u)"
proof (cases "0 \<le> s")
  case True
  then have "u = s" using assms by simp
  then show ?thesis using assms by simp
next
  case False
  have "u = (s + 65536) mod 65536" using assms(1) by simp
  also have "\<dots> = s + 65536" using False assms by (intro mod_pos_pos_trivial) simp_all
  finally show ?thesis using False assms by simp
qed

lemma sint_word_cat_bytes:
  "sint (word_cat lo hi :: 16 word) =
     (if 256 * uint lo + uint hi > 0x7FFF then 256 * uint lo + uint hi - 0x10000
      else 256 * uint lo + uint (hi :: byte))"
  for lo :: byte
proof -
  let ?w = "word_cat lo hi :: 16 word"
  have u: "uint ?w = sint ?w mod 65536"
    using uint_sint [of ?w] by (simp add: take_bit_eq_mod)
  have r: "- 32768 \<le> sint ?w" "sint ?w < 32768"
    using sint_ge [of ?w] sint_lt [of ?w] by simp_all
  have "sint ?w = (if uint ?w > 32767 then uint ?w - 65536 else uint ?w)"
    by (rule signed_of_mod [OF u r])
  then show ?thesis by (simp only: uint_word_cat_bytes)
qed

section \<open>Acceleration\<close>

text \<open>
  Claim C1 reads the swapped acceleration word as a signed 8.8 fixed-point number.
  The wire bytes \<open>FF 00\<close> unpack to the raw word 255, whose swapped word \<open>0xFF00\<close> is
  \<open>-256\<close> as a signed 16-bit integer, that is \<open>-1.0\<close> in signed 8.8, inside
  \<open>[-16, 16]\<close>.  \<^verbatim>\<open>convert_acceleration\<close> divides the unsigned swapped word instead,
  gets \<open>255.0\<close>, and returns \<open>0.0\<close>.
\<close>

theorem convert_acceleration_drops_sign:
  "le_i16 0xFF 0x00 = 255 \<and> swap_octets (le_i16 0xFF 0x00) = 0xFF00
     \<and> real_of_int (sint (0xFF00 :: 16 word)) / 256 = - 1
     \<and> convert_acceleration (le_i16 0xFF 0x00) = 0"
  by (simp add: le_i16_def le_u16_def convert_acceleration_def swap_octets_def)

text \<open>
  Claim C2, as stated: the raw acceleration word \<open>0x0001\<close>, little-endian on the wire
  (bytes \<open>01 00\<close>), decodes to a value near \<open>0.0039 = 1/256\<close>.  It decodes to
  \<open>1.0\<close>, which is not within \<open>1/2\<close> of \<open>1/256\<close>.
\<close>

theorem acceleration_word_0001_counterexample:
  "\<not> \<bar>convert_acceleration (le_i16 0x01 0x00) - 1 / 256\<bar> < 1 / 2"
  by (simp add: le_i16_def le_u16_def convert_acceleration_def swap_octets_def)

text \<open>
  Claim C2, amended: the raw acceleration word \<open>0x0001\<close> (wire bytes \<open>01 00\<close>) decodes
  to exactly \<open>1.0\<close>; the value \<open>1/256\<close> is what the raw word \<open>0x0100\<close> (wire bytes
  \<open>00 01\<close>) decodes to.
\<close>

theorem acceleration_word_0001:
  "le_i16 0x01 0x00 = 0x0001 \<and> convert_acceleration (le_i16 0x01 0x00) = 1
     \<and> le_i16 0x00 0x01 = 0x0100 \<and> convert_acceleration (le_i16 0x00 0x01) = 1 / 256"
  by (simp add: le_i16_def le_u16_def convert_acceleration_def swap_octets_def)

section \<open>Temperature\<close>

text \<open>
  Claim C4: for the raw temperature word with wire bytes \<open>lo hi\<close>, the decoded
  temperature is the swapped word \<open>256 * lo + hi\<close>, less \<open>0x10000\<close> when it exceeds
  \<open>0x7FFF\<close> (the signed reading of the swapped word), divided by 256; it is absent
  exactly when that value is below \<open>-50\<close> or above \<open>100\<close>, and present otherwise.
  The raw word \<open>0x0019\<close> decodes to \<open>25.0\<close>, present.
\<close>

theorem convert_temperature_spec:
  "convert_temperature (le_i16 lo hi) =
     (let swapped = 256 * uint lo + uint hi;
          t = real_of_int (if swapped > 0x7FFF then swapped - 0x10000 else swapped) / 256
      in if t < - 50 \<or> 100 < t then None else Some t)
   \<and> convert_temperature (le_i16 lo hi) =
     (let t = real_of_int (sint (word_cat lo hi :: 16 word)) / 256
      in if t < - 50 \<or> 100 < t then None else Some t)
   \<and> le_i16 0x19 0x00 = 0x0019 \<and> convert_temperature (le_i16 0x19 0x00) = Some 25"
proof -
  have 1: "convert_temperature (le_i16 lo hi) =
     (let swapped = 256 * uint lo + uint hi;
          t = real_of_int (if swapped > 0x7FFF then swapped - 0x10000 else swapped) / 256
      in if t < - 50 \<or> 100 < t then None else Some t)"
    by (simp only: convert_temperature_def swap_octets_le_i16 Let_def)
  have 2: "convert_temperature (le_i16 lo hi) =
     (let t = real_of_int (sint (word_cat lo hi :: 16 word)) / 256
      in if t < - 50 \<or> 100 < t then None else Some t)"
    unfolding 1 sint_word_cat_bytes by (simp only: Let_def)
  have 3: "le_i16 0x19 0x00 = 0x0019"
    by (simp add: le_i16_def le_u16_def)
  have 4: "convert_temperature (le_i16 0x19 0x00) = Some 25"
    by (simp add: 3 convert_temperature_def swap_octets_def)
  from 1 2 3 4 show ?thesis by blast
qed

section \<open>Reading the returned dictionary\<close>

lemma get_acceleration:
  "dict_get (attributes f) ''acceleration_x'' = PyFloat (convert_acceleration (acc_x_raw f))"
  "dict_get (attributes f) ''acceleration_y'' = PyFloat (convert_acceleration (acc_y_raw f))"
  "dict_get (attributes f) ''acceleration_z'' = PyFloat (convert_acceleration (acc_z_raw f))"
  by (simp_all add: attributes_def dict_get_def Let_def)

lemma get_total_acceleration:
  "dict_get (attributes f) ''total_acceleration'' =
     float_or_none (calculate_total_acceleration (Some (convert_acceleration (acc_x_raw f)))
       (Some (convert_acceleration (acc_y_raw f))) (Some (convert_acceleration (acc_z_raw f))))"
  by (simp add: attributes_def dict_get_def Let_def)

lemma get_battery:
  "dict_get (attributes f) ''battery'' = int_or_none (convert_battery (battery f))"
  by (simp add: attributes_def dict_get_def Let_def)

lemma get_uptime:
  "dict_get (attributes f) ''uptime'' = PyStr (convert_uptime (uptime f))"
  by (simp add: attributes_def dict_get_def Let_def)

lemma get_temperature:
  "dict_get (attributes f) ''temperature'' = float_or_none (convert_temperature (temperature_raw f))"
  by (simp add: attributes_def dict_get_def Let_def)

lemma get_flags:
  "map (dict_get (attributes f))
     [''flag_reed_switch'', ''flag_accel_tilt'', ''flag_accel_free_fall'',
      ''flag_impact_x'', ''flag_impact_y'', ''flag_impact_z''] =
   [PyBool (flag f AND 0x01 \<noteq> 0), PyBool (flag f AND 0x02 \<noteq> 0), PyBool (flag f AND 0x04 \<noteq> 0),
    PyBool (flag f AND 0x08 \<noteq> 0), PyBool (flag f AND 0x10 \<noteq> 0), PyBool (flag f AND 0x20 \<noteq> 0)]"
  by (simp add: attributes_def dict_get_def Let_def FLAG_REED_SWITCH_def FLAG_ACCEL_TILT_def
      FLAG_ACCEL_FREE_FALL_def FLAG_IMPACT_X_def FLAG_IMPACT_Y_def FLAG_IMPACT_Z_def)

lemma keys_attributes:
  "map fst (attributes f) =
     [''acceleration_x'', ''acceleration_y'', ''acceleration_z'', ''total_acceleration'',
      ''temperature'', ''uptime'', ''flag_reed_switch'', ''flag_accel_tilt'',
      ''flag_accel_free_fall'', ''flag_impact_x'', ''flag_impact_y'', ''flag_impact_z'',
      ''battery'']"
  by (simp add: attributes_def Let_def)

section \<open>The range of the decoded acceleration\<close>

lemma convert_acceleration_unsigned:
  "convert_acceleration v =
     (if swap_octets v \<le> 4096 then real_of_int (swap_octets v) / 256 else 0)"
proof -
  have "0 \<le> swap_octets v" using swap_octets_range [of v] by simp
  then show ?thesis by (auto simp add: convert_acceleration_def Let_def)
qed

lemma convert_acceleration_bounds: "0 \<le> convert_acceleration v \<and> convert_acceleration v \<le> 16"
proof -
  have "0 \<le> swap_octets v" using swap_octets_range [of v] by simp
  then show ?thesis by (auto simp add: convert_acceleration_unsigned)
qed

section \<open>Total acceleration\<close>

subsection \<open>The rounded square root\<close>

lemma floor_log2_eqI:
  fixes r :: real
  assumes "2 powi e \<le> r" "r < 2 powi (e + 1)"
  shows "\<lfloor>log 2 r\<rfloor> = e"
proof -
  have p: "0 < r" using assms(1) zero_less_power_int [of "2::real" e] by linarith
  have a: "2 powr real_of_int e = (2::real) powi e"
    by (rule powr_real_of_int') simp_all
  have b: "2 powr real_of_int (e + 1) = (2::real) powi (e + 1)"
    by (rule powr_real_of_int') simp_all
  have "2 powr real_of_int e \<le> r \<and> r < 2 powr (real_of_int e + 1)"
    using assms a b by simp
  then show ?thesis using p by (simp add: floor_log_eq_powr_iff)
qed

lemma round_half_even_near:
  assumes "\<bar>q - real_of_int m\<bar> < 1 / 2"
  shows "round_half_even q = m"
proof (cases "real_of_int m \<le> q")
  case True
  then have f: "\<lfloor>q\<rfloor> = m" using assms by (intro floor_unique) linarith+
  show ?thesis using assms True by (simp add: round_half_even_def f Let_def)
next
  case False
  then have f: "\<lfloor>q\<rfloor> = m - 1" using assms by (intro floor_unique) (simp, linarith)+
  show ?thesis using assms False by (simp add: round_half_even_def f Let_def)
qed

lemma round_half_even_error: "\<bar>real_of_int (round_half_even q) - q\<bar> \<le> 1 / 2"
proof -
  have "real_of_int \<lfloor>q\<rfloor> \<le> q" "q < real_of_int \<lfloor>q\<rfloor> + 1" by linarith+
  then show ?thesis by (auto simp add: round_half_even_def Let_def)
qed

lemma round_binary64_eqI:
  assumes "2 powi e \<le> r" "r < 2 powi (e + 1)"
    and "\<bar>r / 2 powi (e - 52) - real_of_int m\<bar> < 1 / 2"
  shows "round_binary64 r = real_of_int m * 2 powi (e - 52)"
  using round_half_even_near [OF assms(3)]
  by (simp add: round_binary64_def floor_log2_eqI [OF assms(1,2)] Let_def)

lemma round_binary64_error:
  assumes "0 < r"
  shows "\<bar>round_binary64 r - r\<bar> \<le> r / 2 ^ 53"
proof -
  define e where "e = \<lfloor>log 2 r\<rfloor>"
  define u :: real where "u = 2 powi (e - 52)"
  have u: "0 < u" by (simp add: u_def)
  have lo: "2 powi e \<le> r"
  proof -
    have "2 powr real_of_int e \<le> r"
      using assms floor_log_eq_powr_iff [of r 2 e] by (simp add: e_def)
    then show ?thesis by (simp add: powr_real_of_int')
  qed
  have ue: "u * 2 ^ 52 = 2 powi e"
  proof -
    have "(2::real) powi (e - 52) * 2 powi 52 = 2 powi (e - 52 + 52)"
      by (subst power_int_add) simp_all
    then show ?thesis by (simp add: u_def)
  qed
  have "round_binary64 r - r = (real_of_int (round_half_even (r / u)) - r / u) * u"
    using u by (simp add: round_binary64_def e_def u_def Let_def algebra_simps)
  then have "\<bar>round_binary64 r - r\<bar> = \<bar>real_of_int (round_half_even (r / u)) - r / u\<bar> * u"
    using u by (simp add: abs_mult)
  also have "\<dots> \<le> 1 / 2 * u"
    using round_half_even_error [of "r / u"] u by (intro mult_right_mono) simp_all
  also have "\<dots> = 2 powi e / 2 ^ 53" using ue [symmetric] by simp
  also have "\<dots> \<le> r / 2 ^ 53" using lo by (simp add: divide_right_mono)
  finally show ?thesis .
qed

lemma math_sqrt_error: "0 \<le> x \<Longrightarrow> \<bar>math_sqrt x - sqrt x\<bar> \<le> sqrt x / 2 ^ 53"
  using round_binary64_error [of "sqrt x"] by (cases "x = 0") (simp_all add: math_sqrt_def)

lemma math_sqrt_eqI:
  assumes "(2 powi e)\<^sup>2 \<le> s" "s < (2 powi (e + 1))\<^sup>2"
    and "((real_of_int m - 1 / 2) * 2 powi (e - 52))\<^sup>2 < s"
    and "s < ((real_of_int m + 1 / 2) * 2 powi (e - 52))\<^sup>2"
    and "1 \<le> m"
  shows "math_sqrt s = real_of_int m * 2 powi (e - 52)"
proof -
  define u :: real where "u = 2 powi (e - 52)"
  have u: "0 < u" by (simp add: u_def)
  have p: "0 < (2::real) powi e" "0 < (2::real) powi (e + 1)" by simp_all
  have "0 < ((2::real) powi e)\<^sup>2" using p(1) by simp
  then have s: "0 < s" using assms(1) by linarith
  have 1: "2 powi e \<le> sqrt s" using assms(1) by (rule real_le_rsqrt)
  have 2: "sqrt s < 2 powi (e + 1)" using p(2) assms(2) by (intro real_less_lsqrt) simp_all
  have 3: "(real_of_int m - 1 / 2) * u < sqrt s"
    using assms(3) unfolding u_def by (rule real_less_rsqrt)
  have "0 \<le> (real_of_int m + 1 / 2) * u" using u assms(5) by simp
  then have 4: "sqrt s < (real_of_int m + 1 / 2) * u"
    using assms(4) unfolding u_def by (intro real_less_lsqrt) simp_all
  have "real_of_int m * u - u / 2 < sqrt s" "sqrt s < real_of_int m * u + u / 2"
    using 3 4 by (simp_all add: algebra_simps)
  then have "\<bar>sqrt s - real_of_int m * u\<bar> < u / 2"
    by linarith
  then have "\<bar>sqrt s - real_of_int m * u\<bar> / u < 1 / 2"
    using u by (simp add: field_simps)
  moreover have "\<bar>sqrt s - real_of_int m * u\<bar> / u = \<bar>sqrt s / u - real_of_int m\<bar>"
  proof -
    have "sqrt s / u - real_of_int m = (sqrt s - real_of_int m * u) / u"
      using u by (simp add: diff_divide_distrib)
    then have "\<bar>sqrt s / u - real_of_int m\<bar> = \<bar>sqrt s - real_of_int m * u\<bar> / \<bar>u\<bar>"
      by (simp only: abs_divide)
    then show ?thesis using u by simp
  qed
  ultimately have "\<bar>sqrt s / u - real_of_int m\<bar> < 1 / 2"
    by simp
  then have "round_binary64 (sqrt s) = real_of_int m * 2 powi (e - 52)"
    unfolding u_def using 1 2 by (intro round_binary64_eqI)
  then show ?thesis using s by (simp add: math_sqrt_def)
qed

lemma math_sqrt_square:
  assumes "2 ^ 52 \<le> m" "m < 2 ^ 53"
  shows "math_sqrt ((real_of_int m * 2 powi j)\<^sup>2) = real_of_int m * 2 powi j"
proof -
  define r :: real where "r = real_of_int m * 2 powi j"
  have u: "0 < (2::real) powi j" by simp
  have "real_of_int (2 ^ 52) \<le> real_of_int m" "real_of_int m < real_of_int (2 ^ 53)"
    using assms by (simp_all only: of_int_le_iff of_int_less_iff)
  then have m: "(2::real) ^ 52 \<le> real_of_int m" "real_of_int m < 2 ^ 53"
    by simp_all
  have r: "0 < r" using u m(1) by (simp add: r_def)
  have e1: "(2::real) powi (j + 52) = 2 ^ 52 * 2 powi j"
    using power_int_add [of "2::real" j 52] by (simp add: mult.commute)
  have e2: "(2::real) powi (j + 52 + 1) = 2 ^ 53 * 2 powi j"
    using power_int_add [of "2::real" j 53] by (simp add: mult.commute add.assoc)
  have lo: "2 powi (j + 52) \<le> r" unfolding e1 r_def using m(1) u by simp
  have hi: "r < 2 powi (j + 52 + 1)" unfolding e2 r_def using m(2) u by simp
  have q: "\<bar>r / 2 powi (j + 52 - 52) - real_of_int m\<bar> < 1 / 2"
    using u by (simp add: r_def)
  have "round_binary64 r = real_of_int m * 2 powi (j + 52 - 52)"
    using lo hi q by (rule round_binary64_eqI)
  then have "round_binary64 r = r" by (simp add: r_def)
  then show ?thesis using r unfolding r_def [symmetric] by (simp add: math_sqrt_def)
qed

lemma math_sqrt_25: "math_sqrt 25 = 5"
  using math_sqrt_square [of 5629499534213120 "- 50"] by simp

lemma math_sqrt_589825: "math_sqrt (589825 / 65536) = 3377702583838189 / 1125899906842624"
proof -
  have "math_sqrt (589825 / 65536) = real_of_int 6755405167676378 * 2 powi (1 - 52)"
    by (rule math_sqrt_eqI) (simp_all add: power2_eq_square)
  then show ?thesis by simp
qed

subsection \<open>The sum of squares is exact\<close>

lemma convert_acceleration_dyadic:
  "\<exists>n. convert_acceleration v = real_of_int n / 256 \<and> 0 \<le> n \<and> n \<le> 4096"
proof (cases "swap_octets v \<le> 4096")
  case True
  then show ?thesis
    using swap_octets_range [of v] by (auto simp add: convert_acceleration_unsigned)
next
  case False
  then have "convert_acceleration v = real_of_int 0 / 256"
    by (simp add: convert_acceleration_unsigned)
  then show ?thesis by (intro exI [of _ 0]) simp
qed

lemma sum_of_squares_dyadic:
  "\<exists>i j k. (convert_acceleration u)\<^sup>2 = real_of_int i / 65536
      \<and> (convert_acceleration u)\<^sup>2 + (convert_acceleration v)\<^sup>2 = real_of_int (i + j) / 65536
      \<and> (convert_acceleration u)\<^sup>2 + (convert_acceleration v)\<^sup>2 + (convert_acceleration w)\<^sup>2
          = real_of_int (i + j + k) / 65536
      \<and> 0 \<le> i \<and> 0 \<le> j \<and> 0 \<le> k \<and> i + j + k \<le> 50331648"
proof -
  obtain a where a: "convert_acceleration u = real_of_int a / 256" "0 \<le> a" "a \<le> 4096"
    using convert_acceleration_dyadic [of u] by blast
  obtain b where b: "convert_acceleration v = real_of_int b / 256" "0 \<le> b" "b \<le> 4096"
    using convert_acceleration_dyadic [of v] by blast
  obtain c where c: "convert_acceleration w = real_of_int c / 256" "0 \<le> c" "c \<le> 4096"
    using convert_acceleration_dyadic [of w] by blast
  have sq: "n * n \<le> 16777216" if "0 \<le> n" "n \<le> 4096" for n :: int
    using mult_mono [of n 4096 n 4096] that by simp
  have "(convert_acceleration u)\<^sup>2 = real_of_int (a * a) / 65536"
    "(convert_acceleration v)\<^sup>2 = real_of_int (b * b) / 65536"
    "(convert_acceleration w)\<^sup>2 = real_of_int (c * c) / 65536"
    by (simp_all add: a(1) b(1) c(1) power2_eq_square)
  moreover have "0 \<le> a * a" "0 \<le> b * b" "0 \<le> c * c" "a * a + b * b + c * c \<le> 50331648"
    using sq [OF a(2,3)] sq [OF b(2,3)] sq [OF c(2,3)] a(2) b(2) c(2) by simp_all
  ultimately show ?thesis
    by (intro exI [of _ "a * a"] exI [of _ "b * b"] exI [of _ "c * c"])
      (simp add: add_divide_distrib)
qed

text \<open>
  Claim C5: \<^verbatim>\<open>calculate_total_acceleration\<close> returns a value if and only if all three
  axis values are present.  In every decoded dictionary the three axes are floats and
  \<^verbatim>\<open>total_acceleration\<close> is \<^verbatim>\<open>math.sqrt\<close> of the sum of the squares of those (possibly
  zeroed) values: the Euclidean norm as binary64 holds it, within a relative error of
  \<open>2 ^ -53\<close> of the real norm.  The axes \<open>(3, 4, 0)\<close> give exactly \<open>5\<close>; the axes
  \<open>(0, 1/256, 3)\<close>, whose norm is irrational, give \<open>3377702583838189 / 2 ^ 50\<close>.
\<close>

theorem total_acceleration_norm:
  "(calculate_total_acceleration ax ay az \<noteq> None) = (ax \<noteq> None \<and> ay \<noteq> None \<and> az \<noteq> None)
   \<and> (\<exists>a b c. dict_get (attributes f) ''acceleration_x'' = PyFloat a
          \<and> dict_get (attributes f) ''acceleration_y'' = PyFloat b
          \<and> dict_get (attributes f) ''acceleration_z'' = PyFloat c
          \<and> dict_get (attributes f) ''total_acceleration'' = PyFloat (math_sqrt (a\<^sup>2 + b\<^sup>2 + c\<^sup>2))
          \<and> \<bar>math_sqrt (a\<^sup>2 + b\<^sup>2 + c\<^sup>2) - sqrt (a\<^sup>2 + b\<^sup>2 + c\<^sup>2)\<bar>
              \<le> sqrt (a\<^sup>2 + b\<^sup>2 + c\<^sup>2) / 2 ^ 53)
   \<and> calculate_total_acceleration (Some 3) (Some 4) (Some 0) = Some 5
   \<and> calculate_total_acceleration (Some 0) (Some (1 / 256)) (Some 3) =
       Some (3377702583838189 / 1125899906842624)"
proof -
  have 1: "(calculate_total_acceleration ax ay az \<noteq> None) = (ax \<noteq> None \<and> ay \<noteq> None \<and> az \<noteq> None)"
    by (cases ax; cases ay; cases az) (simp_all add: calculate_total_acceleration_def)
  have 2: "calculate_total_acceleration (Some x) (Some y) (Some z) = Some (math_sqrt (x\<^sup>2 + y\<^sup>2 + z\<^sup>2))"
    for x y z by (simp add: calculate_total_acceleration_def)
  have 3: "calculate_total_acceleration (Some 3) (Some 4) (Some 0) = Some 5"
    by (simp add: 2 math_sqrt_25)
  have 4: "dict_get (attributes f) ''total_acceleration'' =
      PyFloat (math_sqrt ((convert_acceleration (acc_x_raw f))\<^sup>2 + (convert_acceleration (acc_y_raw f))\<^sup>2
        + (convert_acceleration (acc_z_raw f))\<^sup>2))"
    by (simp only: get_total_acceleration 2 float_or_none_def option.case)
  have 5: "\<bar>math_sqrt (a\<^sup>2 + b\<^sup>2 + c\<^sup>2) - sqrt (a\<^sup>2 + b\<^sup>2 + c\<^sup>2)\<bar> \<le> sqrt (a\<^sup>2 + b\<^sup>2 + c\<^sup>2) / 2 ^ 53"
    for a b c :: real by (rule math_sqrt_error) simp
  have 6: "calculate_total_acceleration (Some 0) (Some (1 / 256)) (Some 3) =
       Some (3377702583838189 / 1125899906842624)"
    using math_sqrt_589825 by (simp add: 2 power2_eq_square)
  from 1 3 4 5 6 get_acceleration [of f] show ?thesis by blast
qed

section \<open>Battery\<close>

text \<open>
  Claim C6: for every raw battery byte \<open>b\<close>, the decoded battery is \<open>b\<close> itself when
  \<open>b \<le> 100\<close> and absent when \<open>b > 100\<close>; the test \<open>b < 0\<close> of
  \<^verbatim>\<open>convert_battery\<close> is never true of an unsigned byte.
\<close>

theorem convert_battery_byte:
  "convert_battery (uint b) = (if uint b \<le> 100 then Some (uint b) else None)
   \<and> \<not> uint b < 0
   \<and> dict_get (attributes (f\<lparr>battery := uint b\<rparr>)) ''battery'' =
       (if uint b \<le> 100 then PyInt (uint b) else PyNone)"
  for b :: byte
  by (simp add: get_battery convert_battery_def int_or_none_def)

section \<open>Flags\<close>

lemma flag_test_byte: "(uint b AND uint m \<noteq> 0) = (b AND m \<noteq> 0)" for b m :: byte
  by (simp add: word_uint_eq_iff uint_and)

lemma flag_masks:
  "uint (0x01 :: byte) = 0x01" "uint (0x02 :: byte) = 0x02" "uint (0x04 :: byte) = 0x04"
  "uint (0x08 :: byte) = 0x08" "uint (0x10 :: byte) = 0x10" "uint (0x20 :: byte) = 0x20"
  by simp_all

text \<open>
  Claim C7: for every flag byte \<open>b\<close>, the six flags of the dictionary are
  \<open>b AND mask \<noteq> 0\<close> for the masks \<open>0x01\<close> (reed switch), \<open>0x02\<close> (tilt), \<open>0x04\<close>
  (free fall), \<open>0x08\<close>, \<open>0x10\<close>, \<open>0x20\<close> (impact x, y, z); clearing the bits \<open>0x40\<close>
  and \<open>0x80\<close> changes no flag; \<open>0x3F\<close> sets all six, \<open>0x00\<close> none, and \<open>0x09\<close> exactly
  reed switch and impact x.
\<close>

theorem flag_extraction:
  "map (dict_get (attributes (f\<lparr>flag := uint b\<rparr>)))
     [''flag_reed_switch'', ''flag_accel_tilt'', ''flag_accel_free_fall'',
      ''flag_impact_x'', ''flag_impact_y'', ''flag_impact_z''] =
   [PyBool (b AND 0x01 \<noteq> 0), PyBool (b AND 0x02 \<noteq> 0), PyBool (b AND 0x04 \<noteq> 0),
    PyBool (b AND 0x08 \<noteq> 0), PyBool (b AND 0x10 \<noteq> 0), PyBool (b AND 0x20 \<noteq> 0)]
   \<and> map (dict_get (attributes (f\<lparr>flag := uint (b AND 0x3F)\<rparr>)))
     [''flag_reed_switch'', ''flag_accel_tilt'', ''flag_accel_free_fall'',
      ''flag_impact_x'', ''flag_impact_y'', ''flag_impact_z''] =
     map (dict_get (attributes (f\<lparr>flag := uint b\<rparr>)))
     [''flag_reed_switch'', ''flag_accel_tilt'', ''flag_accel_free_fall'',
      ''flag_impact_x'', ''flag_impact_y'', ''flag_impact_z'']
   \<and> map (dict_get (attributes (f\<lparr>flag := uint (0x3F :: byte)\<rparr>)))
     [''flag_reed_switch'', ''flag_accel_tilt'', ''flag_accel_free_fall'',
      ''flag_impact_x'', ''flag_impact_y'', ''flag_impact_z''] =
     [PyBool True, PyBool True, PyBool True, PyBool True, PyBool True, PyBool True]
   \<and> map (dict_get (attributes (f\<lparr>flag := uint (0x00 :: byte)\<rparr>)))
     [''flag_reed_switch'', ''flag_accel_tilt'', ''flag_accel_free_fall'',
      ''flag_impact_x'', ''flag_impact_y'', ''flag_impact_z''] =
     [PyBool False, PyBool False, PyBool False, PyBool False, PyBool False, PyBool False]
   \<and> map (dict_get (attributes (f\<lparr>flag := uint (0x09 :: byte)\<rparr>)))
     [''flag_reed_switch'', ''flag_accel_tilt'', ''flag_accel_free_fall'',
      ''flag_impact_x'', ''flag_impact_y'', ''flag_impact_z''] =
     [PyBool True, PyBool False, PyBool False, PyBool True, PyBool False, PyBool False]"
  for b :: byte
proof -
  have g: "map (dict_get (attributes (f\<lparr>flag := uint c\<rparr>)))
     [''flag_reed_switch'', ''flag_accel_tilt'', ''flag_accel_free_fall'',
      ''flag_impact_x'', ''flag_impact_y'', ''flag_impact_z''] =
   [PyBool (c AND 0x01 \<noteq> 0), PyBool (c AND 0x02 \<noteq> 0), PyBool (c AND 0x04 \<noteq> 0),
    PyBool (c AND 0x08 \<noteq> 0), PyBool (c AND 0x10 \<noteq> 0), PyBool (c AND 0x20 \<noteq> 0)]" for c :: byte
    unfolding get_flags
    using flag_test_byte [of c "0x01"] flag_test_byte [of c "0x02"] flag_test_byte [of c "0x04"]
      flag_test_byte [of c "0x08"] flag_test_byte [of c "0x10"] flag_test_byte [of c "0x20"]
    by (simp add: flag_masks)
  have m: "(b AND 0x3F) AND 0x01 = b AND 0x01" "(b AND 0x3F) AND 0x02 = b AND 0x02"
    "(b AND 0x3F) AND 0x04 = b AND 0x04" "(b AND 0x3F) AND 0x08 = b AND 0x08"
    "(b AND 0x3F) AND 0x10 = b AND 0x10" "(b AND 0x3F) AND 0x20 = b AND 0x20"
    by (simp_all add: and.assoc)
  have 2: "map (dict_get (attributes (f\<lparr>flag := uint (b AND 0x3F)\<rparr>)))
     [''flag_reed_switch'', ''flag_accel_tilt'', ''flag_accel_free_fall'',
      ''flag_impact_x'', ''flag_impact_y'', ''flag_impact_z''] =
     map (dict_get (attributes (f\<lparr>flag := uint b\<rparr>)))
     [''flag_reed_switch'', ''flag_accel_tilt'', ''flag_accel_free_fall'',
      ''flag_impact_x'', ''flag_impact_y'', ''flag_impact_z'']"
    by (simp only: g m)
  have 3: "map (dict_get (attributes (f\<lparr>flag := uint (0x3F :: byte)\<rparr>)))
     [''flag_reed_switch'', ''flag_accel_tilt'', ''flag_accel_free_fall'',
      ''flag_impact_x'', ''flag_impact_y'', ''flag_impact_z''] =
     [PyBool True, PyBool True, PyBool True, PyBool True, PyBool True, PyBool True]"
    unfolding g by simp
  have 4: "map (dict_get (attributes (f\<lparr>flag := uint (0x00 :: byte)\<rparr>)))
     [''flag_reed_switch'', ''flag_accel_tilt'', ''flag_accel_free_fall'',
      ''flag_impact_x'', ''flag_impact_y'', ''flag_impact_z''] =
     [PyBool False, PyBool False, PyBool False, PyBool False, PyBool False, PyBool False]"
    unfolding g by simp
  have 5: "map (dict_get (attributes (f\<lparr>flag := uint (0x09 :: byte)\<rparr>)))
     [''flag_reed_switch'', ''flag_accel_tilt'', ''flag_accel_free_fall'',
      ''flag_impact_x'', ''flag_impact_y'', ''flag_impact_z''] =
     [PyBool True, PyBool False, PyBool False, PyBool True, PyBool False, PyBool False]"
    unfolding g by simp
  from g [of b] 2 3 4 5 show ?thesis by blast
qed

section \<open>Uptime\<close>

lemma mod_mult_div:
  fixes a b c :: int
  assumes "0 < b" "0 \<le> c"
  shows "a mod (b * c) div b = (a div b) mod c"
proof -
  have "a mod (b * c) = b * (a div b mod c) + a mod b"
    using assms by (simp add: zmod_zmult2_eq)
  then have "a mod (b * c) div b = (a div b mod c) + a mod b div b"
    using assms by simp
  then show ?thesis using assms by (simp add: div_pos_pos_trivial)
qed

lemma uptime_dhms_closed:
  "uptime_dhms u = (u div 86400, (u div 3600) mod 24, (u div 60) mod 60, u mod 60)"
proof -
  have h: "(u mod 86400) div 3600 = (u div 3600) mod 24"
    using mod_mult_div [of 3600 24 u] by simp
  have r: "u mod 86400 mod 3600 = u mod 3600"
    by (rule mod_mod_cancel) simp
  have m: "(u mod 3600) div 60 = (u div 60) mod 60"
    using mod_mult_div [of 60 60 u] by simp
  have s: "u mod 3600 mod 60 = u mod 60"
    by (rule mod_mod_cancel) simp
  show ?thesis by (simp add: uptime_dhms_def Let_def h r m s)
qed

lemma dhms_sum:
  fixes u :: int
  shows "u div 86400 * 86400 + (u div 3600) mod 24 * 3600 + (u div 60) mod 60 * 60 + u mod 60 = u"
proof -
  have a: "u mod 86400 = 3600 * (u div 3600 mod 24) + u mod 3600"
    using zmod_zmult2_eq [of 24 u 3600] by simp
  have b: "u mod 3600 = 60 * (u div 60 mod 60) + u mod 60"
    using zmod_zmult2_eq [of 60 u 60] by simp
  have "u = u div 86400 * 86400 + u mod 86400" by simp
  then show ?thesis using a b by linarith
qed

text \<open>
  Claim C8: for every uptime \<open>u\<close>, \<^verbatim>\<open>convert_uptime\<close> splits \<open>u\<close> by integer division
  and modulo into days, hours, minutes and seconds and renders them; it checks no
  range and has no failing branch, so the dictionary always holds the rendered string.
  The uptime 90065 gives 1 day, 1 hour, 1 minute and 5 seconds.
\<close>

theorem convert_uptime_decomposition:
  "uptime_dhms u =
     (u div 86400, (u mod 86400) div 3600, (u mod 86400 mod 3600) div 60,
      u mod 86400 mod 3600 mod 60)
   \<and> uptime_dhms u = (u div 86400, (u div 3600) mod 24, (u div 60) mod 60, u mod 60)
   \<and> convert_uptime u =
       str_int (u div 86400) @ ''d '' @ str_int ((u div 3600) mod 24) @ ''h ''
         @ str_int ((u div 60) mod 60) @ ''m '' @ str_int (u mod 60) @ ''s''
   \<and> dict_get (attributes f) ''uptime'' = PyStr (convert_uptime (uptime f))
   \<and> uptime_dhms 90065 = (1, 1, 1, 5)
   \<and> convert_uptime 90065 = ''1d 1h 1m 5s''"
proof -
  have 1: "uptime_dhms u =
     (u div 86400, (u mod 86400) div 3600, (u mod 86400 mod 3600) div 60,
      u mod 86400 mod 3600 mod 60)"
    by (simp add: uptime_dhms_def Let_def)
  have 3: "convert_uptime u =
       str_int (u div 86400) @ ''d '' @ str_int ((u div 3600) mod 24) @ ''h ''
         @ str_int ((u div 60) mod 60) @ ''m '' @ str_int (u mod 60) @ ''s''"
    by (simp only: convert_uptime_def uptime_dhms_closed prod.case)
  have 5: "uptime_dhms 90065 = (1, 1, 1, 5)"
    by (simp add: uptime_dhms_def)
  have 6: "convert_uptime 90065 = ''1d 1h 1m 5s''"
    by (simp add: convert_uptime_def 5 str_int_def str_nat.simps digit_char_def)
  from 1 uptime_dhms_closed [of u] 3 get_uptime [of f] 5 6 show ?thesis by blast
qed

text \<open>
  Claim C10: the components computed by \<^verbatim>\<open>convert_uptime\<close> rebuild its input:
  \<open>days * 86400 + hours * 3600 + minutes * 60 + seconds = u\<close>, with \<open>0 \<le> hours < 24\<close>,
  \<open>0 \<le> minutes < 60\<close> and \<open>0 \<le> seconds < 60\<close>.  It holds for every integer, hence for
  every unsigned 32-bit uptime.
\<close>

theorem uptime_dhms_reconstructs:
  "uptime_dhms u = (days, hours, minutes, seconds) \<Longrightarrow>
     days * 86400 + hours * 3600 + minutes * 60 + seconds = u
     \<and> 0 \<le> hours \<and> hours < 24 \<and> 0 \<le> minutes \<and> minutes < 60 \<and> 0 \<le> seconds \<and> seconds < 60"
proof -
  assume a: "uptime_dhms u = (days, hours, minutes, seconds)"
  have d: "days = u div 86400" and h: "hours = (u div 3600) mod 24"
    and m: "minutes = (u div 60) mod 60" and s: "seconds = u mod 60"
    using a by (simp_all add: uptime_dhms_closed)
  show ?thesis unfolding d h m s using dhms_sum [of u] by simp
qed

text \<open>
  The uptime field with wire bytes \<open>D1 5F 01 00\<close> is 90065 seconds.
\<close>

theorem uptime_dhms_reconstructs_witness:
  "uptime_dhms (le_u32 0xD1 0x5F 0x01 0x00) = (1, 1, 1, 5)
   \<and> (1::int) * 86400 + 1 * 3600 + 1 * 60 + 5 = le_u32 0xD1 0x5F 0x01 0x00
   \<and> (0::int) \<le> 1 \<and> (1::int) < 24 \<and> (1::int) < 60 \<and> (0::int) \<le> 5 \<and> (5::int) < 60"
proof -
  have h: "uptime_dhms (le_u32 0xD1 0x5F 0x01 0x00) = (1, 1, 1, 5)"
    by (simp add: uptime_dhms_def le_u32_def)
  show ?thesis using h uptime_dhms_reconstructs [OF h] by simp
qed

section \<open>The whole decoder\<close>

lemma struct_unpack_18:
  "length data = 18 \<Longrightarrow> \<exists>f. struct_unpack data = Some f \<and> parse_mikrotik_data data = ([], attributes f)"
  by (simp add: struct_unpack_def parse_mikrotik_data_def)

lemma parse_wrong_length:
  "length data \<noteq> 18 \<Longrightarrow> parse_mikrotik_data data =
     ([''Invalid data length: expected 18 bytes, got '' @ str_nat (length data) @ '' bytes''], [])"
  by (simp add: parse_mikrotik_data_def)

text \<open>
  Claim C9: in the dictionary decoded from any 18-byte payload, each acceleration axis
  lies in \<open>[0, 16]\<close> and is never negative.  \<^verbatim>\<open>convert_acceleration\<close> divides the
  swapped word as an unsigned number, with no sign correction, so a swapped word above
  \<open>0x7FFF\<close> is above 16 after the division and is replaced by \<open>0\<close>.
\<close>

theorem acceleration_axes_unsigned:
  "(length data = 18 \<longrightarrow>
      (\<exists>x y z. dict_get (snd (parse_mikrotik_data data)) ''acceleration_x'' = PyFloat x
         \<and> dict_get (snd (parse_mikrotik_data data)) ''acceleration_y'' = PyFloat y
         \<and> dict_get (snd (parse_mikrotik_data data)) ''acceleration_z'' = PyFloat z
         \<and> 0 \<le> x \<and> x \<le> 16 \<and> 0 \<le> y \<and> y \<le> 16 \<and> 0 \<le> z \<and> z \<le> 16))
   \<and> convert_acceleration v =
       (if swap_octets v \<le> 4096 then real_of_int (swap_octets v) / 256 else 0)
   \<and> (0x7FFF < swap_octets v \<longrightarrow>
        16 < real_of_int (swap_octets v) / 256 \<and> convert_acceleration v = 0)"
proof -
  have 1: "\<exists>x y z. dict_get (snd (parse_mikrotik_data data)) ''acceleration_x'' = PyFloat x
         \<and> dict_get (snd (parse_mikrotik_data data)) ''acceleration_y'' = PyFloat y
         \<and> dict_get (snd (parse_mikrotik_data data)) ''acceleration_z'' = PyFloat z
         \<and> 0 \<le> x \<and> x \<le> 16 \<and> 0 \<le> y \<and> y \<le> 16 \<and> 0 \<le> z \<and> z \<le> 16"
    if "length data = 18"
  proof -
    from that obtain f where f: "parse_mikrotik_data data = ([], attributes f)"
      using struct_unpack_18 by blast
    show ?thesis
      unfolding f snd_conv get_acceleration
      using convert_acceleration_bounds [of "acc_x_raw f"]
        convert_acceleration_bounds [of "acc_y_raw f"]
        convert_acceleration_bounds [of "acc_z_raw f"]
      by blast
  qed
  have 3: "16 < real_of_int (swap_octets v) / 256 \<and> convert_acceleration v = 0"
    if "0x7FFF < swap_octets v"
    using that by (simp add: convert_acceleration_unsigned)
  from 1 convert_acceleration_unsigned [of v] 3 show ?thesis by blast
qed

text \<open>
  A payload whose x axis has the wire bytes \<open>FF 00\<close> (swapped word \<open>0xFF00\<close>).
\<close>

theorem acceleration_axes_unsigned_witness:
  "length [1, 0, 0, 0, 0xFF, 0x00, 0x00, 0x01, 0x03, 0x00, 0x19, 0x00,
           0xD1, 0x5F, 0x01, 0x00, 0x09, 0x32 :: byte] = 18
   \<and> (\<exists>x y z. dict_get (snd (parse_mikrotik_data
            [1, 0, 0, 0, 0xFF, 0x00, 0x00, 0x01, 0x03, 0x00, 0x19, 0x00,
             0xD1, 0x5F, 0x01, 0x00, 0x09, 0x32])) ''acceleration_x'' = PyFloat x
         \<and> dict_get (snd (parse_mikrotik_data
            [1, 0, 0, 0, 0xFF, 0x00, 0x00, 0x01, 0x03, 0x00, 0x19, 0x00,
             0xD1, 0x5F, 0x01, 0x00, 0x09, 0x32])) ''acceleration_y'' = PyFloat y
         \<and> dict_get (snd (parse_mikrotik_data
            [1, 0, 0, 0, 0xFF, 0x00, 0x00, 0x01, 0x03, 0x00, 0x19, 0x00,
             0xD1, 0x5F, 0x01, 0x00, 0x09, 0x32])) ''acceleration_z'' = PyFloat z
         \<and> 0 \<le> x \<and> x \<le> 16 \<and> 0 \<le> y \<and> y \<le> 16 \<and> 0 \<le> z \<and> z \<le> 16)
   \<and> 0x7FFF < swap_octets 255 \<and> convert_acceleration 255 = 0"
proof -
  have l: "length [1, 0, 0, 0, 0xFF, 0x00, 0x00, 0x01, 0x03, 0x00, 0x19, 0x00,
           0xD1, 0x5F, 0x01, 0x00, 0x09, 0x32 :: byte] = 18" by simp
  have s: "0x7FFF < swap_octets 255" by (simp add: swap_octets_def)
  show ?thesis
    using l s acceleration_axes_unsigned [of "[1, 0, 0, 0, 0xFF, 0x00, 0x00, 0x01, 0x03, 0x00, 0x19, 0x00,
           0xD1, 0x5F, 0x01, 0x00, 0x09, 0x32]" 255]
    by blast
qed

text \<open>
  Claim C3, as stated: an input whose length is not 18 is answered with a typed error
  \<open>InvalidLength\<close> that reports the actual and the expected length.  The function
  returns the empty dictionary: the inputs of length 0 and of length 1 get the same
  value, and a lookup in it gives \<^verbatim>\<open>None\<close>, as an absent measurement does.
\<close>

theorem parse_invalid_length_counterexample:
  "snd (parse_mikrotik_data []) = []
   \<and> snd (parse_mikrotik_data [0]) = snd (parse_mikrotik_data [])
   \<and> dict_get (snd (parse_mikrotik_data [])) ''temperature'' = PyNone"
  by (simp add: parse_mikrotik_data_def dict_get_def)

text \<open>
  Claim C3, amended: for every byte sequence whose length is not 18,
  \<^verbatim>\<open>parse_mikrotik_data\<close> returns the empty dictionary, and the actual and the expected
  length appear only in the message it logs at error level; for every 18-byte input
  the unpacking succeeds and the function returns the dictionary of all thirteen
  attributes, logging no error.  Being a total function, it returns in every case.
\<close>

theorem parse_mikrotik_data_result:
  "(length data \<noteq> 18 \<longrightarrow>
      parse_mikrotik_data data =
        ([''Invalid data length: expected 18 bytes, got '' @ str_nat (length data) @ '' bytes''],
         []))
   \<and> (length data = 18 \<longrightarrow>
        (\<exists>f. struct_unpack data = Some f \<and> parse_mikrotik_data data = ([], attributes f))
        \<and> map fst (snd (parse_mikrotik_data data)) =
            [''acceleration_x'', ''acceleration_y'', ''acceleration_z'', ''total_acceleration'',
             ''temperature'', ''uptime'', ''flag_reed_switch'', ''flag_accel_tilt'',
             ''flag_accel_free_fall'', ''flag_impact_x'', ''flag_impact_y'', ''flag_impact_z'',
             ''battery''])"
proof -
  have 2: "map fst (snd (parse_mikrotik_data data)) =
            [''acceleration_x'', ''acceleration_y'', ''acceleration_z'', ''total_acceleration'',
             ''temperature'', ''uptime'', ''flag_reed_switch'', ''flag_accel_tilt'',
             ''flag_accel_free_fall'', ''flag_impact_x'', ''flag_impact_y'', ''flag_impact_z'',
             ''battery'']" if "length data = 18"
  proof -
    from that obtain f where f: "parse_mikrotik_data data = ([], attributes f)"
      using struct_unpack_18 by blast
    show ?thesis unfolding f snd_conv by (rule keys_attributes)
  qed
  from parse_wrong_length [of data] struct_unpack_18 [of data] 2 show ?thesis by blast
qed

text \<open>
  The empty input, and the payload that is zero but for the flag byte \<open>0x02\<close> and the
  battery byte 50.
\<close>

theorem parse_mikrotik_data_result_witness:
  "length ([] :: byte list) \<noteq> 18
   \<and> parse_mikrotik_data [] = ([''Invalid data length: expected 18 bytes, got 0 bytes''], [])
   \<and> length [0, 0, 0, 0, 0, 0, 0, 0, 0, 0, 0, 0, 0, 0, 0, 0, 0x02, 0x32 :: byte] = 18
   \<and> parse_mikrotik_data [0, 0, 0, 0, 0, 0, 0, 0, 0, 0, 0, 0, 0, 0, 0, 0, 0x02, 0x32] =
       ([], [(''acceleration_x'', PyFloat 0), (''acceleration_y'', PyFloat 0),
             (''acceleration_z'', PyFloat 0), (''total_acceleration'', PyFloat 0),
             (''temperature'', PyFloat 0), (''uptime'', PyStr ''0d 0h 0m 0s''),
             (''flag_reed_switch'', PyBool False), (''flag_accel_tilt'', PyBool True),
             (''flag_accel_free_fall'', PyBool False), (''flag_impact_x'', PyBool False),
             (''flag_impact_y'', PyBool False), (''flag_impact_z'', PyBool False),
             (''battery'', PyInt 50)])"
proof -
  have a: "length ([] :: byte list) \<noteq> 18" by simp
  have b: "length [0, 0, 0, 0, 0, 0, 0, 0, 0, 0, 0, 0, 0, 0, 0, 0, 0x02, 0x32 :: byte] = 18"
    by simp
  have n: "str_nat 0 = ''0''" by (simp add: str_nat.simps digit_char_def)
  have u: "convert_uptime 0 = ''0d 0h 0m 0s''"
    by (simp add: convert_uptime_def uptime_dhms_def str_int_def n)
  have c: "attributes \<lparr>payload_version = 0, encryption_flag = 0, salt = 0, acc_x_raw = 0,
       acc_y_raw = 0, acc_z_raw = 0, temperature_raw = 0, uptime = 0, flag = 2, battery = 50\<rparr> =
     [(''acceleration_x'', PyFloat 0), (''acceleration_y'', PyFloat 0),
             (''acceleration_z'', PyFloat 0), (''total_acceleration'', PyFloat 0),
             (''temperature'', PyFloat 0), (''uptime'', PyStr ''0d 0h 0m 0s''),
             (''flag_reed_switch'', PyBool False), (''flag_accel_tilt'', PyBool True),
             (''flag_accel_free_fall'', PyBool False), (''flag_impact_x'', PyBool False),
             (''flag_impact_y'', PyBool False), (''flag_impact_z'', PyBool False),
             (''battery'', PyInt 50)]"
    by (simp add: attributes_def u convert_acceleration_def swap_octets_def
        convert_temperature_def convert_battery_def float_or_none_def int_or_none_def
        calculate_total_acceleration_def math_sqrt_def FLAG_REED_SWITCH_def FLAG_ACCEL_TILT_def
        FLAG_ACCEL_FREE_FALL_def FLAG_IMPACT_X_def FLAG_IMPACT_Y_def FLAG_IMPACT_Z_def)
  have d: "struct_unpack [0, 0, 0, 0, 0, 0, 0, 0, 0, 0, 0, 0, 0, 0, 0, 0, 0x02, 0x32] =
     Some \<lparr>payload_version = 0, encryption_flag = 0, salt = 0, acc_x_raw = 0,
       acc_y_raw = 0, acc_z_raw = 0, temperature_raw = 0, uptime = 0, flag = 2, battery = 50\<rparr>"
    by (simp add: struct_unpack_def le_i16_def le_u16_def le_u32_def)
  show ?thesis
    using a b c d parse_mikrotik_data_result [of "[]"]
      parse_mikrotik_data_result [of "[0, 0, 0, 0, 0, 0, 0, 0, 0, 0, 0, 0, 0, 0, 0, 0, 0x02, 0x32]"]
    by (simp add: n)
qed

end
